theory Spec2Isabelle
  imports Main
begin

section \<open>Data model\<close>

text \<open>
  \<^verbatim>\<open>WalletBalance\<close> (imported from \<^verbatim>\<open>../contracts/types\<close>): four bigint fields, read by
  \<^verbatim>\<open>BalanceDisplay.tsx\<close> as \<^verbatim>\<open>availableToWithdraw\<close>, \<^verbatim>\<open>stillLocked\<close>,
  \<^verbatim>\<open>totalUserDeposit\<close> and \<^verbatim>\<open>totalUserDepositAndReward\<close>. A JavaScript bigint is an
  unbounded integer.
\<close>

record WalletBalance =
  availableToWithdraw :: int
  stillLocked :: int
  totalUserDeposit :: int
  totalUserDepositAndReward :: int

text \<open>
  \<^verbatim>\<open>BalanceDisplayProps\<close> without the callback \<^verbatim>\<open>onDisconnect\<close>, which is the parent's
  \<^verbatim>\<open>handleDisconnect\<close> and is modelled further down.
\<close>

record props =
  address :: string
  isManual :: bool
  isTestnet :: bool

text \<open>The six \<^verbatim>\<open>useState\<close> cells of \<^verbatim>\<open>BalanceDisplay\<close>, lines 19 to 24.\<close>

record bd_state =
  balance :: "WalletBalance option"
  loading :: bool
  refreshing :: bool
  error :: "string option"
  showWithdrawModal :: bool
  qrCode :: string

definition initial_state :: bd_state where
  "initial_state =
     \<lparr>balance = None, loading = True, refreshing = False, error = None,
      showWithdrawModal = False, qrCode = []\<rparr>"

text \<open>
  A promise either resolves with a value or rejects. The rejection reason is only passed
  to \<^verbatim>\<open>console.error\<close>, so it carries no data here.
\<close>

datatype 'a outcome = Resolved 'a | Rejected

subsection \<open>Constants and helpers that the component imports\<close>

text \<open>
  \<^verbatim>\<open>LOCKER_ADDRESSES\<close>, \<^verbatim>\<open>WITHDRAW_AMOUNT\<close> (from \<^verbatim>\<open>../utils/constants\<close>),
  \<^verbatim>\<open>formatContractAddress\<close> and \<^verbatim>\<open>generateWithdrawDeepLink\<close> (from
  \<^verbatim>\<open>../utils/helpers\<close>) are not part of the two source files; the component only calls
  them. They are parameters of the model. \<^verbatim>\<open>toBoc_base64\<close> stands for the library call
  \<^verbatim>\<open>cell.toBoc().toString('base64')\<close>.
\<close>

record env =
  LOCKER_ADDRESSES_mainnet :: string
  LOCKER_ADDRESSES_testnet :: string
  WITHDRAW_AMOUNT :: int
  formatContractAddress :: "string \<Rightarrow> bool \<Rightarrow> string"
  generateWithdrawDeepLink :: "string \<Rightarrow> bool \<Rightarrow> string"
  toBoc_base64 :: "bool list \<Rightarrow> string"

text \<open>Line 26: \<^verbatim>\<open>isTestnet ? LOCKER_ADDRESSES.testnet : LOCKER_ADDRESSES.mainnet\<close>.\<close>

definition lockerAddress :: "env \<Rightarrow> bool \<Rightarrow> string" where
  "lockerAddress E testnet =
     (if testnet then LOCKER_ADDRESSES_testnet E else LOCKER_ADDRESSES_mainnet E)"

text \<open>Line 28: \<^verbatim>\<open>formatContractAddress(lockerAddress, isTestnet)\<close>.\<close>

definition formattedLockerAddress :: "env \<Rightarrow> bool \<Rightarrow> string" where
  "formattedLockerAddress E testnet =
     formatContractAddress E (lockerAddress E testnet) testnet"

text \<open>\<^verbatim>\<open>WITHDRAW_AMOUNT.toString()\<close>: the decimal digits of an integer.\<close>

fun nat_toString :: "nat \<Rightarrow> string" where
  "nat_toString n =
     (if n < 10 then [''0123456789'' ! n]
      else nat_toString (n div 10) @ [''0123456789'' ! (n mod 10)])"

declare nat_toString.simps [simp del]

definition toString :: "int \<Rightarrow> string" where
  "toString i =
     (if i < 0 then CHR ''-'' # nat_toString (nat (- i)) else nat_toString (nat i))"

subsection \<open>The message body\<close>

text \<open>
  Lines 79 to 82 build the body with the cell builder of \<^verbatim>\<open>@ton/core\<close>:
  \<^verbatim>\<open>beginCell().storeUint(0, 32).storeStringTail('w').endCell()\<close>. The model keeps the data
  bits of the cell, most significant bit first. \<^verbatim>\<open>storeUint(v, n)\<close> appends the \<open>n\<close>-bit
  big-endian form of \<open>v\<close>; \<^verbatim>\<open>storeStringTail(s)\<close> appends the bytes of \<open>s\<close> (a string that
  fits into the remaining bits of the cell needs no reference cell, which is the case for
  one byte after 32 bits).
\<close>

definition uint_bits :: "nat \<Rightarrow> nat \<Rightarrow> bool list" where
  "uint_bits v n = map (\<lambda>i. odd (v div 2 ^ i)) (rev [0..<n])"

definition beginCell :: "bool list" where
  "beginCell = []"

definition storeUint :: "nat \<Rightarrow> nat \<Rightarrow> bool list \<Rightarrow> bool list" where
  "storeUint v n b = b @ uint_bits v n"

definition storeStringTail :: "string \<Rightarrow> bool list \<Rightarrow> bool list" where
  "storeStringTail s b = b @ concat (map (\<lambda>c. uint_bits (of_char c) 8) s)"

definition endCell :: "bool list \<Rightarrow> bool list" where
  "endCell b = b"

definition withdraw_body :: "bool list" where
  "withdraw_body = endCell (storeStringTail ''w'' (storeUint 0 32 beginCell))"

text \<open>The argument of \<^verbatim>\<open>tonConnectUI.sendTransaction\<close>, lines 84 to 93.\<close>

record message =
  msg_address :: string
  msg_amount :: string
  msg_payload :: string

record transaction =
  messages :: "message list"
  validUntil :: nat

subsection \<open>What the component does to the outside\<close>

text \<open>
  Every call that leaves the component is recorded, in order:
  \<^item> \<open>GetWalletBalance t l a\<close> is \<^verbatim>\<open>new TonApiClient(t).getWalletBalance(l, a)\<close>, line 55-56;
  \<^item> \<open>QRCode_toDataURL d\<close> is \<^verbatim>\<open>QRCode.toDataURL(d)\<close>, line 73;
  \<^item> \<open>SendTransaction tx\<close> is \<^verbatim>\<open>tonConnectUI.sendTransaction(tx)\<close>, line 84;
  \<^item> \<open>ConsoleError m\<close> is \<^verbatim>\<open>console.error(m, err)\<close>, lines 59 and 98;
  \<^item> \<open>TonConnectDisconnect\<close> is \<^verbatim>\<open>tonConnectUI.disconnect()\<close>, line 106;
  \<^item> \<open>OnDisconnect\<close> is the call of the prop \<^verbatim>\<open>onDisconnect()\<close>, line 108;
  \<^item> \<open>ValidateUserAddress a\<close> is \<^verbatim>\<open>billsService.validateUserAddress(a)\<close> of the parent
    component.

  The parent component's texts are Cyrillic. A JavaScript string is a sequence of UTF-16
  code units, so a text that is not ASCII is given as the list of its code units;
  \<open>js_string\<close> gives the code units of an ASCII literal.
\<close>

definition js_string :: "string \<Rightarrow> nat list" where
  "js_string s = map of_char s"

datatype action =
    GetWalletBalance bool string string
  | QRCode_toDataURL string
  | SendTransaction transaction
  | ConsoleError "nat list"
  | TonConnectDisconnect
  | OnDisconnect
  | ValidateUserAddress string

fun is_fetch :: "action \<Rightarrow> bool" where
  "is_fetch (GetWalletBalance t l a) = True"
| "is_fetch other = False"

fun is_sdk_call :: "action \<Rightarrow> bool" where
  "is_sdk_call (SendTransaction tx) = True"
| "is_sdk_call TonConnectDisconnect = True"
| "is_sdk_call other = False"

section \<open>The component as a transition system\<close>

text \<open>
  A function component is called anew at every render. The functions it declares
  (\<^verbatim>\<open>loadBalance\<close>, \<^verbatim>\<open>handleWithdraw\<close>, the interval callback) are closures over the
  constants of \<^emph>\<open>that\<close> render: the props, \<^verbatim>\<open>balance\<close> and \<^verbatim>\<open>showWithdrawModal\<close>. The
  state setters write to the component's current state whichever render they were taken
  from. A \<open>closure\<close> holds what a render's functions read.
\<close>

record closure =
  cl_props :: props
  cl_balance :: "WalletBalance option"
  cl_showWithdrawModal :: bool

text \<open>
  The world of one mounted \<^verbatim>\<open>BalanceDisplay\<close>:
  \<^item> the current props and state;
  \<^item> the interval armed by the effect of lines 30 to 43, with its period in milliseconds
    and the closure of the render whose effect armed it;
  \<^item> the pending \<^verbatim>\<open>setTimeout\<close> callbacks of line 96, each with its delay and the
    closure of the render whose \<^verbatim>\<open>handleWithdraw\<close> scheduled it;
  \<^item> the number of \<^verbatim>\<open>getWalletBalance\<close> and \<^verbatim>\<open>QRCode.toDataURL\<close> promises not yet
    settled (their continuations only call state setters), and the closures of the
    \<^verbatim>\<open>handleWithdraw\<close> calls waiting for \<^verbatim>\<open>sendTransaction\<close>;
  \<^item> the log of calls made so far.
\<close>

record interval =
  iv_period :: nat
  iv_closure :: closure

record world =
  w_props :: props
  w_state :: bd_state
  w_interval :: "interval option"
  w_timeouts :: "(nat \<times> closure) list"
  w_fetches_inflight :: nat
  w_qr_inflight :: nat
  w_tx_inflight :: "closure list"
  w_log :: "action list"

definition fetch_count :: "world \<Rightarrow> nat" where
  "fetch_count w = length (filter is_fetch (w_log w))"

text \<open>The closure of the render of the current props and state.\<close>

definition render :: "world \<Rightarrow> closure" where
  "render w =
     \<lparr>cl_props = w_props w, cl_balance = balance (w_state w),
      cl_showWithdrawModal = showWithdrawModal (w_state w)\<rparr>"

subsection \<open>loadBalance, lines 45 to 65\<close>

text \<open>
  The part before the \<^verbatim>\<open>await\<close>: \<^verbatim>\<open>if (!balance) setLoading(true) else setRefreshing(true)\<close>,
  \<^verbatim>\<open>setError(null)\<close>, then the call of \<^verbatim>\<open>getWalletBalance\<close>. \<^verbatim>\<open>balance\<close>,
  \<^verbatim>\<open>isTestnet\<close>, \<^verbatim>\<open>lockerAddress\<close> and \<^verbatim>\<open>address\<close> are read from the closure.
\<close>

definition loadBalance_prefix :: "closure \<Rightarrow> bd_state \<Rightarrow> bd_state" where
  "loadBalance_prefix c s =
     (case cl_balance c of
        None \<Rightarrow> s\<lparr>loading := True\<rparr>
      | Some b \<Rightarrow> s\<lparr>refreshing := True\<rparr>)\<lparr>error := None\<rparr>"

definition loadBalance_request :: "env \<Rightarrow> closure \<Rightarrow> action" where
  "loadBalance_request E c =
     GetWalletBalance (isTestnet (cl_props c))
       (lockerAddress E (isTestnet (cl_props c))) (address (cl_props c))"

definition loadBalance :: "env \<Rightarrow> closure \<Rightarrow> world \<Rightarrow> world" where
  "loadBalance E c w =
     w\<lparr>w_state := loadBalance_prefix c (w_state w),
       w_log := w_log w @ [loadBalance_request E c],
       w_fetches_inflight := Suc (w_fetches_inflight w)\<rparr>"

text \<open>
  The part after the \<^verbatim>\<open>await\<close>: \<^verbatim>\<open>setBalance(balanceData)\<close> when the promise resolved,
  the \<^verbatim>\<open>catch\<close> block when it rejected, and the \<^verbatim>\<open>finally\<close> block in both cases.
\<close>

definition loadBalance_settle :: "WalletBalance outcome \<Rightarrow> bd_state \<Rightarrow> bd_state" where
  "loadBalance_settle r s =
     (case r of
        Resolved balanceData \<Rightarrow> s\<lparr>balance := Some balanceData\<rparr>
      | Rejected \<Rightarrow> s\<lparr>error := Some ''Failed to load balance. Please try again.''\<rparr>)
     \<lparr>loading := False, refreshing := False\<rparr>"

definition fetchSettled :: "WalletBalance outcome \<Rightarrow> world \<Rightarrow> world" where
  "fetchSettled r w =
     (if w_fetches_inflight w = 0 then w
      else w\<lparr>w_state := loadBalance_settle r (w_state w),
             w_log := w_log w @
               (case r of Resolved b \<Rightarrow> [] | Rejected \<Rightarrow> [ConsoleError (js_string ''Failed to load balance:'')]),
             w_fetches_inflight := w_fetches_inflight w - 1\<rparr>)"

subsection \<open>The polling effect, lines 30 to 43\<close>

text \<open>
  The effect body calls \<^verbatim>\<open>loadBalance()\<close> and then arms an interval of 30000 ms; both
  use the closure of the render that the effect belongs to. Arming replaces the interval
  that the cleanup of the previous run has cleared.
\<close>

definition interval_callback :: "env \<Rightarrow> closure \<Rightarrow> world \<Rightarrow> world" where
  "interval_callback E c w = (if \<not> cl_showWithdrawModal c then loadBalance E c w else w)"

definition useEffect_body :: "env \<Rightarrow> world \<Rightarrow> world" where
  "useEffect_body E w =
     (loadBalance E (render w) w)\<lparr>w_interval := Some \<lparr>iv_period = 30000, iv_closure = render w\<rparr>\<rparr>"

text \<open>The dependency array \<^verbatim>\<open>[address, isTestnet, showWithdrawModal]\<close> of line 43.\<close>

definition deps :: "world \<Rightarrow> string \<times> bool \<times> bool" where
  "deps w = (address (w_props w), isTestnet (w_props w), showWithdrawModal (w_state w))"

text \<open>
  After an update the component renders again; the effect runs again (cleanup first) when
  a dependency differs from its value at the previous render.
\<close>

definition commit :: "env \<Rightarrow> string \<times> bool \<times> bool \<Rightarrow> world \<Rightarrow> world" where
  "commit E d w = (if deps w = d then w else useEffect_body E w)"

definition mount :: "env \<Rightarrow> props \<Rightarrow> world" where
  "mount E p =
     useEffect_body E
       \<lparr>w_props = p, w_state = initial_state, w_interval = None, w_timeouts = [],
        w_fetches_inflight = 0, w_qr_inflight = 0, w_tx_inflight = [], w_log = []\<rparr>"

subsection \<open>handleWithdraw, lines 67 to 102\<close>

definition withdraw_transaction :: "env \<Rightarrow> bool \<Rightarrow> nat \<Rightarrow> transaction" where
  "withdraw_transaction E testnet now =
     \<lparr>messages =
        [\<lparr>msg_address = formattedLockerAddress E testnet,
          msg_amount = toString (WITHDRAW_AMOUNT E),
          msg_payload = toBoc_base64 E withdraw_body\<rparr>],
      validUntil = now + 5 * 60 * 1000\<rparr>"

text \<open>
  The part of \<^verbatim>\<open>handleWithdraw\<close> up to its first \<^verbatim>\<open>await\<close>. \<open>now\<close> is the value of
  \<^verbatim>\<open>Date.now()\<close>. The handler is the one of the latest render, so its closure is
  \<open>render w\<close>.
\<close>

definition handleWithdraw :: "env \<Rightarrow> nat \<Rightarrow> world \<Rightarrow> world" where
  "handleWithdraw E now w =
     (let c = render w in
      case cl_balance c of
        None \<Rightarrow> w
      | Some b \<Rightarrow>
          if availableToWithdraw b = 0 then w
          else if isManual (cl_props c) then
            w\<lparr>w_log := w_log w @
                 [QRCode_toDataURL
                    (generateWithdrawDeepLink E (lockerAddress E (isTestnet (cl_props c)))
                       (isTestnet (cl_props c)))],
              w_qr_inflight := Suc (w_qr_inflight w)\<rparr>
          else
            w\<lparr>w_log := w_log w @
                 [SendTransaction (withdraw_transaction E (isTestnet (cl_props c)) now)],
              w_tx_inflight := w_tx_inflight w @ [c]\<rparr>)"

text \<open>
  Manual path after \<^verbatim>\<open>await QRCode.toDataURL(deepLink)\<close>: \<^verbatim>\<open>setQrCode(qr)\<close> and
  \<^verbatim>\<open>setShowWithdrawModal(true)\<close>. The manual branch has no \<^verbatim>\<open>try\<close>: a rejection ends the
  handler.
\<close>

definition qrSettled :: "string outcome \<Rightarrow> world \<Rightarrow> world" where
  "qrSettled r w =
     (if w_qr_inflight w = 0 then w
      else case r of
        Resolved qr \<Rightarrow>
          w\<lparr>w_state := (w_state w)\<lparr>qrCode := qr, showWithdrawModal := True\<rparr>,
            w_qr_inflight := w_qr_inflight w - 1\<rparr>
      | Rejected \<Rightarrow> w\<lparr>w_qr_inflight := w_qr_inflight w - 1\<rparr>)"

text \<open>
  Connected path after \<^verbatim>\<open>await tonConnectUI.sendTransaction(...)\<close>: on success
  \<^verbatim>\<open>setTimeout(() => loadBalance(), 5000)\<close>, where \<^verbatim>\<open>loadBalance\<close> is the one of the
  handler's render; on failure the \<^verbatim>\<open>catch\<close> block of lines 97 to 100.
\<close>

definition txSettled :: "unit outcome \<Rightarrow> world \<Rightarrow> world" where
  "txSettled r w =
     (case w_tx_inflight w of
        [] \<Rightarrow> w
      | c # cs \<Rightarrow>
          (case r of
             Resolved u \<Rightarrow> w\<lparr>w_timeouts := w_timeouts w @ [(5000, c)], w_tx_inflight := cs\<rparr>
           | Rejected \<Rightarrow>
               w\<lparr>w_state := (w_state w)\<lparr>error := Some ''Transaction failed. Please try again.''\<rparr>,
                 w_log := w_log w @ [ConsoleError (js_string ''Transaction failed:'')],
                 w_tx_inflight := cs\<rparr>))"

text \<open>The callback of line 96, \<^verbatim>\<open>() => loadBalance()\<close>, when its timeout fires.\<close>

definition timeoutFires :: "env \<Rightarrow> world \<Rightarrow> world" where
  "timeoutFires E w =
     (case w_timeouts w of
        [] \<Rightarrow> w
      | (d, c) # ts \<Rightarrow> loadBalance E c (w\<lparr>w_timeouts := ts\<rparr>))"

text \<open>The interval fires: its callback runs with the closure it was armed with.\<close>

definition tick :: "env \<Rightarrow> world \<Rightarrow> world" where
  "tick E w =
     (case w_interval w of
        None \<Rightarrow> w
      | Some iv \<Rightarrow> interval_callback E (iv_closure iv) w)"

text \<open>The Close button of the dialog, line 248: \<^verbatim>\<open>setShowWithdrawModal(false)\<close>.\<close>

definition closeModal :: "world \<Rightarrow> world" where
  "closeModal w = w\<lparr>w_state := (w_state w)\<lparr>showWithdrawModal := False\<rparr>\<rparr>"

subsection \<open>Events\<close>

text \<open>
  What can happen to a mounted component. The buttons exist only in the render that shows
  them: nothing but the spinner while \<^verbatim>\<open>loading\<close> (line 111); the withdraw button when
  \<^verbatim>\<open>balance && balance.availableToWithdraw > 0n\<close> (line 174); the refresh button is
  disabled while \<^verbatim>\<open>refreshing\<close> (line 185); the Close button inside the dialog
  (line 202). A render and the effects it causes are taken as one step. Unmounting, which
  clears the interval, ends the life of this world and is not among the events.
\<close>

datatype event =
    Tick
  | TimeoutFires
  | FetchSettled "WalletBalance outcome"
  | ClickRefresh
  | ClickWithdraw nat
  | QRSettled "string outcome"
  | TxSettled "unit outcome"
  | ClickClose
  | SetProps props

definition withdraw_button_shown :: "bd_state \<Rightarrow> bool" where
  "withdraw_button_shown s =
     (\<not> loading s \<and> (case balance s of None \<Rightarrow> False | Some b \<Rightarrow> availableToWithdraw b > 0))"

fun react :: "env \<Rightarrow> event \<Rightarrow> world \<Rightarrow> world" where
  "react E Tick w = tick E w"
| "react E TimeoutFires w = timeoutFires E w"
| "react E (FetchSettled r) w = fetchSettled r w"
| "react E ClickRefresh w =
     (if loading (w_state w) \<or> refreshing (w_state w) then w else loadBalance E (render w) w)"
| "react E (ClickWithdraw now) w =
     (if withdraw_button_shown (w_state w) then handleWithdraw E now w else w)"
| "react E (QRSettled r) w = qrSettled r w"
| "react E (TxSettled r) w = txSettled r w"
| "react E ClickClose w =
     (if \<not> loading (w_state w) \<and> showWithdrawModal (w_state w) then closeModal w else w)"
| "react E (SetProps p) w = w\<lparr>w_props := p\<rparr>"

definition step :: "env \<Rightarrow> event \<Rightarrow> world \<Rightarrow> world" where
  "step E e w = commit E (deps w) (react E e w)"

fun run :: "env \<Rightarrow> event list \<Rightarrow> world \<Rightarrow> world" where
  "run E [] w = w"
| "run E (e # es) w = run E es (step E e w)"

text \<open>
  The events whose handling can call \<^verbatim>\<open>setError\<close> with a text: the \<^verbatim>\<open>catch\<close> block of
  \<^verbatim>\<open>loadBalance\<close> (line 60) and the one of \<^verbatim>\<open>handleWithdraw\<close> (line 99).
\<close>

fun sets_error :: "event \<Rightarrow> bool" where
  "sets_error (FetchSettled Rejected) = True"
| "sets_error (TxSettled Rejected) = True"
| "sets_error other = False"

text \<open>
  The interval in force was armed by the effect of the latest render in which a
  dependency changed, so the callback's view of the dependencies is the current one.
\<close>

definition interval_in_sync :: "world \<Rightarrow> bool" where
  "interval_in_sync w =
     (case w_interval w of
        None \<Rightarrow> False
      | Some iv \<Rightarrow>
          iv_period iv = 30000 \<and>
          cl_showWithdrawModal (iv_closure iv) = showWithdrawModal (w_state w) \<and>
          address (cl_props (iv_closure iv)) = address (w_props w) \<and>
          isTestnet (cl_props (iv_closure iv)) = isTestnet (w_props w))"

subsection \<open>handleDisconnect, lines 104 to 109, and the parent component\<close>

text \<open>
  The state of \<^verbatim>\<open>AppContent\<close>: the address reported by the wallet session
  (\<^verbatim>\<open>useTonAddress()\<close>, the empty string when no wallet is connected) and the four
  \<^verbatim>\<open>useState\<close> cells of lines 11 to 14. The cell \<^verbatim>\<open>isManual\<close> is \<open>isManual_state\<close> here;
  \<open>isManual\<close> is the prop it is passed down as.
\<close>

record app_state =
  tonAddress :: string
  manualAddress :: "string option"
  isManual_state :: bool
  isValidatingTonConnect :: bool
  tonConnectError :: "nat list option"

text \<open>
  The two texts that the validation effect stores in \<^verbatim>\<open>tonConnectError\<close>, and the text it
  logs. In English: ``This wallet has no deposits'', ``Could not confirm the wallet's
  authenticity'' and ``Could not confirm the address:''.
\<close>

definition msg_no_deposits :: "nat list" where
  "msg_no_deposits =
     [0x412, 0x20, 0x44d, 0x442, 0x43e, 0x43c, 0x20, 0x43a, 0x43e, 0x448, 0x435, 0x43b, 0x44c,
      0x43a, 0x435, 0x20, 0x43d, 0x435, 0x442, 0x20, 0x434, 0x435, 0x43f, 0x43e, 0x437, 0x438,
      0x442, 0x43e, 0x432]"

definition msg_not_confirmed :: "nat list" where
  "msg_not_confirmed =
     [0x41d, 0x435, 0x20, 0x443, 0x434, 0x430, 0x43b, 0x43e, 0x441, 0x44c, 0x20, 0x43f, 0x43e,
      0x434, 0x442, 0x432, 0x435, 0x440, 0x434, 0x438, 0x442, 0x44c, 0x20, 0x43f, 0x43e, 0x434,
      0x43b, 0x438, 0x43d, 0x43d, 0x43e, 0x441, 0x442, 0x44c, 0x20, 0x43a, 0x43e, 0x448, 0x435,
      0x43b, 0x44c, 0x43a, 0x430]"

definition log_not_confirmed :: "nat list" where
  "log_not_confirmed =
     [0x41d, 0x435, 0x20, 0x443, 0x434, 0x430, 0x43b, 0x43e, 0x441, 0x44c, 0x20, 0x43f, 0x43e,
      0x434, 0x442, 0x432, 0x435, 0x440, 0x434, 0x438, 0x442, 0x44c, 0x20, 0x430, 0x434, 0x440,
      0x435, 0x441, 0x3a]"

text \<open>\<^verbatim>\<open>handleAddressSet\<close>, lines 19 to 23.\<close>

definition handleAddressSet :: "string \<Rightarrow> app_state \<Rightarrow> app_state" where
  "handleAddressSet a s =
     s\<lparr>manualAddress := Some a, isManual_state := True, tonConnectError := None\<rparr>"

text \<open>\<^verbatim>\<open>handleDisconnect\<close> of \<^verbatim>\<open>AppContent\<close>, lines 25 to 29.\<close>

definition AppContent_handleDisconnect :: "app_state \<Rightarrow> app_state" where
  "AppContent_handleDisconnect s =
     s\<lparr>manualAddress := None, isManual_state := False, tonConnectError := None\<rparr>"

text \<open>
  \<^verbatim>\<open>handleDisconnect\<close> of \<^verbatim>\<open>BalanceDisplay\<close>. \<open>manual\<close> is the prop \<^verbatim>\<open>isManual\<close>,
  \<open>connected\<close> is \<^verbatim>\<open>tonConnectUI.connected\<close>, \<open>r\<close> is how the promise of
  \<^verbatim>\<open>tonConnectUI.disconnect()\<close> settles when it is called: the \<^verbatim>\<open>await\<close> has no \<^verbatim>\<open>try\<close>
  around it, so a rejection ends the handler before \<^verbatim>\<open>onDisconnect()\<close>. The prop
  \<^verbatim>\<open>onDisconnect\<close> is the parent's \<^verbatim>\<open>handleDisconnect\<close> (line 108 of the parent). The
  result is the calls made, in order, and the parent's state afterwards.
\<close>

definition handleDisconnect ::
  "bool \<Rightarrow> bool \<Rightarrow> unit outcome \<Rightarrow> app_state \<Rightarrow> action list \<times> app_state" where
  "handleDisconnect manual connected r s =
     (if \<not> manual \<and> connected then
        (case r of
           Resolved u \<Rightarrow> ([TonConnectDisconnect, OnDisconnect], AppContent_handleDisconnect s)
         | Rejected \<Rightarrow> ([TonConnectDisconnect], s))
      else ([OnDisconnect], AppContent_handleDisconnect s))"

subsection \<open>The validation effect of the parent, lines 32 to 56\<close>

text \<open>
  The effect runs when \<^verbatim>\<open>tonAddress\<close> changes. A non-empty string is truthy. The first
  function is the effect up to the call of \<^verbatim>\<open>validateUserAddress\<close>, the second the
  \<^verbatim>\<open>then\<close>, \<^verbatim>\<open>catch\<close> and \<^verbatim>\<open>finally\<close> callbacks.
\<close>

definition validation_effect :: "app_state \<Rightarrow> action list \<times> app_state" where
  "validation_effect s =
     (if tonAddress s \<noteq> [] then
        ([ValidateUserAddress (tonAddress s)],
         s\<lparr>isValidatingTonConnect := True, tonConnectError := None\<rparr>)
      else ([], s\<lparr>tonConnectError := None\<rparr>))"

definition validation_settled :: "bool outcome \<Rightarrow> app_state \<Rightarrow> action list \<times> app_state" where
  "validation_settled r s =
     (case r of
        Resolved isValid \<Rightarrow>
          ([], (if isValid then s\<lparr>isManual_state := False, manualAddress := None\<rparr>
                else s\<lparr>tonConnectError := Some msg_no_deposits\<rparr>)
               \<lparr>isValidatingTonConnect := False\<rparr>)
      | Rejected \<Rightarrow>
          ([ConsoleError log_not_confirmed],
           s\<lparr>tonConnectError := Some msg_not_confirmed, isValidatingTonConnect := False\<rparr>))"

text \<open>
  What \<^verbatim>\<open>AppContent\<close> renders, lines 58 to 113: the spinner while validating; the view
  headed ``wallet not found'' (line 77) with the error text when \<^verbatim>\<open>tonAddress &&
  tonConnectError\<close>; otherwise the connector when \<^verbatim>\<open>!currentAddress\<close>, and the balance
  display with its props when there is an address.
\<close>

datatype view =
    ValidatingView
  | WalletNotFoundView "nat list"
  | WalletConnectorView
  | BalanceDisplayView props

text \<open>Line 17: \<^verbatim>\<open>tonAddress || manualAddress\<close>.\<close>

definition currentAddress :: "app_state \<Rightarrow> string option" where
  "currentAddress s = (if tonAddress s \<noteq> [] then Some (tonAddress s) else manualAddress s)"

definition AppContent_view :: "bool \<Rightarrow> app_state \<Rightarrow> view" where
  "AppContent_view testnet s =
     (if isValidatingTonConnect s then ValidatingView
      else case (if tonAddress s \<noteq> [] then tonConnectError s else None) of
        Some (c # cs) \<Rightarrow> WalletNotFoundView (c # cs)
      | other \<Rightarrow>
          (case currentAddress s of
             Some (c # cs) \<Rightarrow>
               BalanceDisplayView
                 \<lparr>address = c # cs, isManual = isManual_state s, isTestnet = testnet\<rparr>
           | other \<Rightarrow> WalletConnectorView))"

fun is_not_found_view :: "view \<Rightarrow> bool" where
  "is_not_found_view (WalletNotFoundView m) = True"
| "is_not_found_view other = False"

text \<open>
  The only button of the ``wallet not found'' view, lines 83 to 93:
  \<^verbatim>\<open>if (tonConnectUI.connected) tonConnectUI.disconnect(); setTonConnectError(null)\<close>.
\<close>

definition notFound_Back :: "bool \<Rightarrow> app_state \<Rightarrow> action list \<times> app_state" where
  "notFound_Back connected s =
     ((if connected then [TonConnectDisconnect] else []), s\<lparr>tonConnectError := None\<rparr>)"

section \<open>Concrete inputs\<close>

text \<open>
  An environment, props and balances to evaluate the model on. The helpers of the
  environment only have to tell the two networks apart.
\<close>

definition demo_env :: env where
  "demo_env =
     \<lparr>LOCKER_ADDRESSES_mainnet = ''EQmain'', LOCKER_ADDRESSES_testnet = ''kQtest'',
      WITHDRAW_AMOUNT = 1000000000,
      formatContractAddress = (\<lambda>a t. (if t then ''t:'' else ''m:'') @ a),
      generateWithdrawDeepLink = (\<lambda>a t. ''ton://transfer/'' @ (if t then ''t:'' else ''m:'') @ a),
      toBoc_base64 = map (\<lambda>x. if x then CHR ''1'' else CHR ''0'')\<rparr>"

definition manual_props :: props where
  "manual_props = \<lparr>address = ''UQuser'', isManual = True, isTestnet = False\<rparr>"

definition connected_props :: props where
  "connected_props = \<lparr>address = ''UQuser'', isManual = False, isTestnet = True\<rparr>"

definition connected_mainnet_props :: props where
  "connected_mainnet_props = \<lparr>address = ''UQuser'', isManual = False, isTestnet = False\<rparr>"

definition demo_balance :: WalletBalance where
  "demo_balance =
     \<lparr>availableToWithdraw = 2500000000, stillLocked = 7500000000,
      totalUserDeposit = 10000000000, totalUserDepositAndReward = 10200000000\<rparr>"

definition zero_balance :: WalletBalance where
  "zero_balance =
     \<lparr>availableToWithdraw = 0, stillLocked = 10000000000,
      totalUserDeposit = 10000000000, totalUserDepositAndReward = 10200000000\<rparr>"

definition demo_app :: app_state where
  "demo_app =
     \<lparr>tonAddress = ''UQuser'', manualAddress = None, isManual_state = False,
      isValidatingTonConnect = False, tonConnectError = None\<rparr>"

text \<open>
  The manual dialog is open: mounted, first balance loaded, withdraw clicked, QR code
  produced, and the fetch that the opening caused has settled.
\<close>

definition dialog_open_trace :: "event list" where
  "dialog_open_trace =
     [FetchSettled (Resolved demo_balance), ClickWithdraw 1000, QRSettled (Resolved ''qr''),
      FetchSettled (Resolved demo_balance)]"

text \<open>The component after its first fetch has resolved with \<open>b\<close>.\<close>

definition loaded :: "props \<Rightarrow> WalletBalance \<Rightarrow> world" where
  "loaded p b = run demo_env [FetchSettled (Resolved b)] (mount demo_env p)"

definition dialog_open :: world where
  "dialog_open = run demo_env dialog_open_trace (mount demo_env manual_props)"

text \<open>The component after its first fetch has failed.\<close>

definition load_failed :: world where
  "load_failed = run demo_env [FetchSettled Rejected] (mount demo_env manual_props)"

text \<open>
  After the failed first fetch: the user clicks refresh, the interval fires while that
  fetch is in flight (its callback does not look at \<^verbatim>\<open>refreshing\<close>), one of the two
  fetches fails and then the other succeeds.
\<close>

definition overlap_trace :: "event list" where
  "overlap_trace =
     [FetchSettled Rejected, ClickRefresh, Tick, FetchSettled Rejected,
      FetchSettled (Resolved demo_balance)]"

definition overlapped :: world where
  "overlapped = run demo_env overlap_trace (mount demo_env manual_props)"

section \<open>Basic facts\<close>

lemmas world_defs =
  loadBalance_def loadBalance_prefix_def loadBalance_request_def fetchSettled_def
  loadBalance_settle_def interval_callback_def useEffect_body_def deps_def commit_def
  handleWithdraw_def qrSettled_def txSettled_def timeoutFires_def tick_def closeModal_def
  step_def render_def fetch_count_def withdraw_button_shown_def Let_def

lemmas demo_defs =
  demo_env_def manual_props_def connected_props_def connected_mainnet_props_def
  demo_balance_def zero_balance_def mount_def initial_state_def dialog_open_trace_def

lemmas app_defs =
  validation_effect_def validation_settled_def AppContent_view_def currentAddress_def
  notFound_Back_def handleDisconnect_def AppContent_handleDisconnect_def

subsection \<open>The body of the withdraw message\<close>

lemma uint_bits_zero: "uint_bits 0 n = replicate n False"
  by (simp add: uint_bits_def map_replicate_const)

lemma uint_bits_w: "uint_bits 119 8 = [False, True, True, True, False, True, True, True]"
  by (simp add: uint_bits_def upt_rec)

text \<open>Thirty-two zero bits, then the byte \<open>0x77\<close>, the letter w.\<close>

lemma withdraw_body_bits:
  "withdraw_body = replicate 32 False @ [False, True, True, True, False, True, True, True]"
  by (simp add: withdraw_body_def endCell_def storeStringTail_def storeUint_def beginCell_def
      uint_bits_zero uint_bits_w)

lemma toString_one_ton: "toString 1000000000 = ''1000000000''"
  by (simp add: toString_def nat_toString.simps)

subsection \<open>One call of loadBalance\<close>

lemma loadBalance_one_fetch: "fetch_count (loadBalance E c w) = fetch_count w + 1"
  by (simp add: world_defs)

lemma loadBalance_flag_of_closure:
  "loading (w_state (loadBalance E c w)) = (cl_balance c = None \<or> loading (w_state w))"
  "refreshing (w_state (loadBalance E c w)) = (cl_balance c \<noteq> None \<or> refreshing (w_state w))"
  "balance (w_state (loadBalance E c w)) = balance (w_state w)"
  by (simp_all add: world_defs split: option.splits)

lemma timeout_one_fetch:
  "w_timeouts w \<noteq> [] \<Longrightarrow> fetch_count (timeoutFires E w) = fetch_count w + 1"
  by (simp add: world_defs split: list.splits)

subsection \<open>The interval follows the dialog\<close>

lemma interval_in_sync_mount: "interval_in_sync (mount E p)"
  by (simp add: interval_in_sync_def mount_def initial_state_def world_defs)

lemma interval_in_sync_step: "interval_in_sync w \<Longrightarrow> interval_in_sync (step E e w)"
  by (cases e)
     (auto simp: interval_in_sync_def world_defs
           split: option.splits list.splits outcome.splits if_splits)

lemma interval_in_sync_run: "interval_in_sync w \<Longrightarrow> interval_in_sync (run E evs w)"
  by (induction evs arbitrary: w) (simp_all add: interval_in_sync_step)

lemma tick_while_open:
  "interval_in_sync w \<Longrightarrow> showWithdrawModal (w_state w) \<Longrightarrow> step E Tick w = w"
  by (auto simp: interval_in_sync_def world_defs split: option.splits)

lemma ticks_while_open:
  "interval_in_sync w \<Longrightarrow> showWithdrawModal (w_state w) \<Longrightarrow> run E (replicate n Tick) w = w"
  by (induction n) (simp_all add: tick_while_open)

lemma close_refetches:
  assumes "showWithdrawModal (w_state w)" and "\<not> loading (w_state w)"
  shows "fetch_count (step E ClickClose w) = fetch_count w + 1"
    and "w_interval (step E ClickClose w) =
           Some \<lparr>iv_period = 30000,
                 iv_closure = \<lparr>cl_props = w_props w, cl_balance = balance (w_state w),
                               cl_showWithdrawModal = False\<rparr>\<rparr>"
    and "fetch_count (step E Tick (step E ClickClose w)) = fetch_count w + 2"
  using assms by (simp_all add: world_defs split: option.splits)


subsection \<open>Where the error comes from\<close>

lemma step_keeps_no_error:
  "error (w_state w) = None \<Longrightarrow> \<not> sets_error e \<Longrightarrow> error (w_state (step E e w)) = None"
  by (cases e)
     (auto simp: world_defs split: option.splits list.splits outcome.splits if_splits)

lemma run_keeps_no_error:
  "error (w_state w) = None \<Longrightarrow> filter sets_error evs = [] \<Longrightarrow>
   error (w_state (run E evs w)) = None"
proof (induction evs arbitrary: w)
  case Nil
  then show ?case by simp
next
  case (Cons e evs)
  from Cons.prems(2) have q: "\<not> sets_error e" and r: "filter sets_error evs = []"
    by (simp_all split: if_splits)
  from Cons.prems(1) q have "error (w_state (step E e w)) = None"
    by (rule step_keeps_no_error)
  then show ?case
    using r by (simp add: Cons.IH)
qed

lemma resolved_keeps_error:
  "error (w_state (fetchSettled (Resolved b) w)) = error (w_state w)"
  by (simp add: world_defs)

subsection \<open>The concrete worlds, evaluated\<close>

lemma loaded_eq:
  "loaded p b =
     \<lparr>w_props = p,
      w_state = \<lparr>balance = Some b, loading = False, refreshing = False, error = None,
                 showWithdrawModal = False, qrCode = []\<rparr>,
      w_interval =
        Some \<lparr>iv_period = 30000,
              iv_closure = \<lparr>cl_props = p, cl_balance = None, cl_showWithdrawModal = False\<rparr>\<rparr>,
      w_timeouts = [], w_fetches_inflight = 0, w_qr_inflight = 0, w_tx_inflight = [],
      w_log = [GetWalletBalance (isTestnet p) (lockerAddress demo_env (isTestnet p)) (address p)]\<rparr>"
  by (simp add: loaded_def world_defs mount_def initial_state_def)

lemma dialog_open_eq:
  "dialog_open =
     \<lparr>w_props = manual_props,
      w_state = \<lparr>balance = Some demo_balance, loading = False, refreshing = False, error = None,
                 showWithdrawModal = True, qrCode = ''qr''\<rparr>,
      w_interval =
        Some \<lparr>iv_period = 30000,
              iv_closure = \<lparr>cl_props = manual_props, cl_balance = Some demo_balance,
                            cl_showWithdrawModal = True\<rparr>\<rparr>,
      w_timeouts = [], w_fetches_inflight = 0, w_qr_inflight = 0, w_tx_inflight = [],
      w_log = [GetWalletBalance False ''EQmain'' ''UQuser'',
               QRCode_toDataURL ''ton://transfer/m:EQmain'',
               GetWalletBalance False ''EQmain'' ''UQuser'']\<rparr>"
  by (simp add: dialog_open_def world_defs demo_defs lockerAddress_def)

lemma load_failed_eq:
  "load_failed =
     \<lparr>w_props = manual_props,
      w_state = \<lparr>balance = None, loading = False, refreshing = False,
                 error = Some ''Failed to load balance. Please try again.'',
                 showWithdrawModal = False, qrCode = []\<rparr>,
      w_interval =
        Some \<lparr>iv_period = 30000,
              iv_closure = \<lparr>cl_props = manual_props, cl_balance = None,
                            cl_showWithdrawModal = False\<rparr>\<rparr>,
      w_timeouts = [], w_fetches_inflight = 0, w_qr_inflight = 0, w_tx_inflight = [],
      w_log = [GetWalletBalance False ''EQmain'' ''UQuser'',
               ConsoleError (js_string ''Failed to load balance:'')]\<rparr>"
  by (simp add: load_failed_def world_defs demo_defs lockerAddress_def)

section \<open>The claims\<close>

subsection \<open>C1: polling and the withdrawal dialog\<close>

text \<open>
  Claim C1, as the code has it. In every world that the component can reach from its
  mount in which the dialog is open, any number of interval ticks leaves the number of
  balance fetches unchanged. Closing the dialog (the Close button is on screen, so
  \<^verbatim>\<open>loading\<close> is false) changes the dependency \<^verbatim>\<open>showWithdrawModal\<close>, so the effect runs
  again: it issues one fetch at once and arms a new interval of 30000 ms whose closure sees
  the dialog closed; the first tick after that fetches again.
\<close>

theorem polling_and_dialog:
  assumes "w = run E evs (mount E p)" and "showWithdrawModal (w_state w)"
  shows
    "fetch_count (run E (replicate n Tick) w) = fetch_count w \<and>
     (\<not> loading (w_state w) \<longrightarrow>
        fetch_count (step E ClickClose w) = fetch_count w + 1 \<and>
        w_interval (step E ClickClose w) =
          Some \<lparr>iv_period = 30000,
                iv_closure = \<lparr>cl_props = w_props w, cl_balance = balance (w_state w),
                              cl_showWithdrawModal = False\<rparr>\<rparr> \<and>
        fetch_count (step E Tick (step E ClickClose w)) = fetch_count w + 2)"
proof -
  have "interval_in_sync w"
    using assms(1) by (simp add: interval_in_sync_mount interval_in_sync_run)
  then have "run E (replicate n Tick) w = w"
    using assms(2) by (rule ticks_while_open)
  then show ?thesis
    using assms(2) by (simp add: close_refetches)
qed

text \<open>
  The claim as written says that closing the dialog issues no fetch. With the manual dialog
  open after two fetches (the initial one and the one that opening the dialog caused),
  the click on Close alone brings the count to three.
\<close>

theorem closing_dialog_fetches_at_once:
  "showWithdrawModal (w_state dialog_open) \<and>
   fetch_count dialog_open = 2 \<and>
   fetch_count (step demo_env ClickClose dialog_open) = 3"
  by (simp add: dialog_open_eq) (simp add: world_defs demo_defs lockerAddress_def)

text \<open>The theorem at the open manual dialog, with three ticks.\<close>

theorem polling_and_dialog_witness:
  "dialog_open = run demo_env dialog_open_trace (mount demo_env manual_props) \<and>
   showWithdrawModal (w_state dialog_open) \<and>
   \<not> loading (w_state dialog_open) \<and>
   fetch_count (run demo_env (replicate 3 Tick) dialog_open) = 2 \<and>
   fetch_count (step demo_env ClickClose dialog_open) = 3 \<and>
   fetch_count (step demo_env Tick (step demo_env ClickClose dialog_open)) = 4"
proof -
  have r: "dialog_open = run demo_env dialog_open_trace (mount demo_env manual_props)"
    by (simp add: dialog_open_def)
  have h: "showWithdrawModal (w_state dialog_open)"
    by (simp add: dialog_open_eq)
  have l: "\<not> loading (w_state dialog_open)"
    by (simp add: dialog_open_eq)
  have f: "fetch_count dialog_open = 2"
    by (simp add: dialog_open_eq fetch_count_def)
  show ?thesis
    using polling_and_dialog [OF r h, of 3] r h l f by simp
qed

subsection \<open>C2: a failed and a successful fetch\<close>

text \<open>
  Claim C2, as the code has it. When a fetch of the poller is in flight and fails,
  \<^verbatim>\<open>balance\<close> stays as it was, the error text is set and \<^verbatim>\<open>loading\<close> and
  \<^verbatim>\<open>refreshing\<close> are cleared. When it succeeds with \<open>b\<close>, \<^verbatim>\<open>balance\<close> becomes \<open>b\<close> and
  both flags are cleared, but the success itself leaves the error as it is: the error is
  set to null only at the start of a call of \<^verbatim>\<open>loadBalance\<close>. So the error is null after
  a successful fetch whenever no fetch and no transaction has failed since the call
  started, whatever else happened in between; in particular when the fetch settles right
  after its call.
\<close>

theorem fetch_settlement:
  assumes "w_fetches_inflight w \<noteq> 0"
  shows
    "balance (w_state (fetchSettled Rejected w)) = balance (w_state w) \<and>
     error (w_state (fetchSettled Rejected w)) =
       Some ''Failed to load balance. Please try again.'' \<and>
     \<not> loading (w_state (fetchSettled Rejected w)) \<and>
     \<not> refreshing (w_state (fetchSettled Rejected w)) \<and>
     balance (w_state (fetchSettled (Resolved b) w)) = Some b \<and>
     \<not> loading (w_state (fetchSettled (Resolved b) w)) \<and>
     \<not> refreshing (w_state (fetchSettled (Resolved b) w)) \<and>
     error (w_state (fetchSettled (Resolved b) w)) = error (w_state w) \<and>
     error (w_state (loadBalance E c v)) = None \<and>
     w_fetches_inflight (loadBalance E c v) \<noteq> 0 \<and>
     error (w_state (fetchSettled (Resolved b) (loadBalance E c v))) = None \<and>
     (filter sets_error evs = [] \<longrightarrow>
        error (w_state (fetchSettled (Resolved b) (run E evs (loadBalance E c v)))) = None)"
proof -
  have settle:
    "balance (w_state (fetchSettled Rejected w)) = balance (w_state w) \<and>
     error (w_state (fetchSettled Rejected w)) =
       Some ''Failed to load balance. Please try again.'' \<and>
     \<not> loading (w_state (fetchSettled Rejected w)) \<and>
     \<not> refreshing (w_state (fetchSettled Rejected w)) \<and>
     balance (w_state (fetchSettled (Resolved b) w)) = Some b \<and>
     \<not> loading (w_state (fetchSettled (Resolved b) w)) \<and>
     \<not> refreshing (w_state (fetchSettled (Resolved b) w))"
    using assms by (simp add: world_defs)
  have start: "error (w_state (loadBalance E c v)) = None"
    by (simp add: world_defs)
  have flight: "w_fetches_inflight (loadBalance E c v) \<noteq> 0"
    by (simp add: world_defs)
  have quiet: "filter sets_error evs = [] \<longrightarrow>
      error (w_state (fetchSettled (Resolved b) (run E evs (loadBalance E c v)))) = None"
    using start by (simp add: resolved_keeps_error run_keeps_no_error)
  show ?thesis
    using settle start flight quiet by (simp add: resolved_keeps_error)
qed

text \<open>
  The claim as written has the error null after every successful fetch that follows a
  failed one. After the failed first fetch, a refresh is started and the interval fires
  during its flight; one of the two fetches fails, the other then succeeds: the balance
  is the fetched one and the error text of the failure is still shown.
\<close>

theorem success_leaves_error:
  "balance (w_state overlapped) = Some demo_balance \<and>
   error (w_state overlapped) = Some ''Failed to load balance. Please try again.'' \<and>
   w_fetches_inflight overlapped = 0"
  by (simp add: overlapped_def overlap_trace_def manual_props_def mount_def initial_state_def
      world_defs)

text \<open>
  A refresh started after the failed first fetch: its failure and its success, and its
  success after a tick has started a second fetch in between.
\<close>

theorem fetch_settlement_witness:
  "w_fetches_inflight (loadBalance demo_env (render load_failed) load_failed) \<noteq> 0 \<and>
   error (w_state load_failed) = Some ''Failed to load balance. Please try again.'' \<and>
   balance (w_state (fetchSettled (Resolved demo_balance)
     (loadBalance demo_env (render load_failed) load_failed))) = Some demo_balance \<and>
   error (w_state (fetchSettled (Resolved demo_balance)
     (loadBalance demo_env (render load_failed) load_failed))) = None \<and>
   filter sets_error [Tick] = [] \<and>
   error (w_state (fetchSettled (Resolved demo_balance)
     (run demo_env [Tick] (loadBalance demo_env (render load_failed) load_failed)))) = None"
proof -
  have i: "w_fetches_inflight (loadBalance demo_env (render load_failed) load_failed) \<noteq> 0"
    by (simp add: loadBalance_def)
  have e: "error (w_state load_failed) = Some ''Failed to load balance. Please try again.''"
    by (simp add: load_failed_eq)
  have q: "filter sets_error [Tick] = []"
    by simp
  show ?thesis
    using fetch_settlement [OF i, of demo_balance demo_env "render load_failed" load_failed
        "[Tick]"] i e q
    by simp
qed

subsection \<open>C3: nothing to withdraw\<close>

text \<open>
  Claim C3. When \<^verbatim>\<open>balance\<close> is null or its \<^verbatim>\<open>availableToWithdraw\<close> is zero,
  \<^verbatim>\<open>handleWithdraw\<close> returns the world it was given: nothing is added to the log of calls
  (no fetch, no wallet call, no QR code), no state cell changes, no promise and no timer
  is left pending. The same holds for the click as an event.
\<close>

theorem withdraw_noop:
  assumes "balance (w_state w) = None \<or>
           (\<exists>b. balance (w_state w) = Some b \<and> availableToWithdraw b = 0)"
  shows "handleWithdraw E now w = w \<and> step E (ClickWithdraw now) w = w"
  using assms by (auto simp: world_defs split: option.splits)

text \<open>The handler and the click, on a connected wallet whose loaded balance has nothing to withdraw.\<close>

theorem withdraw_noop_witness:
  "balance (w_state (loaded connected_props zero_balance)) = Some zero_balance \<and>
   availableToWithdraw zero_balance = 0 \<and>
   handleWithdraw demo_env 1000 (loaded connected_props zero_balance) =
     loaded connected_props zero_balance \<and>
   step demo_env (ClickWithdraw 1000) (loaded connected_props zero_balance) =
     loaded connected_props zero_balance"
proof -
  have b: "balance (w_state (loaded connected_props zero_balance)) = Some zero_balance"
    by (simp add: loaded_eq)
  have z: "availableToWithdraw zero_balance = 0"
    by (simp add: zero_balance_def)
  from b z have h:
    "balance (w_state (loaded connected_props zero_balance)) = None \<or>
     (\<exists>b. balance (w_state (loaded connected_props zero_balance)) = Some b \<and>
          availableToWithdraw b = 0)"
    by simp
  show ?thesis
    using withdraw_noop [OF h, of demo_env 1000] b z by simp
qed

subsection \<open>C4: the re-poll after a transaction\<close>



subsection \<open>C5: the transaction that is sent\<close>

text \<open>
  Claim C5. In connected mode, with something to withdraw, \<^verbatim>\<open>handleWithdraw\<close> makes one
  call, \<^verbatim>\<open>sendTransaction\<close>, with one message: the address is the testnet locker address
  formatted for testnet when \<^verbatim>\<open>isTestnet\<close> is set and the mainnet locker address
  formatted for mainnet otherwise, the amount is \<^verbatim>\<open>WITHDRAW_AMOUNT.toString()\<close>, the
  payload is the serialised cell of 32 zero bits followed by the byte of the letter w, and
  \<^verbatim>\<open>validUntil\<close> is \<^verbatim>\<open>Date.now()\<close> plus 300000.
\<close>

theorem connected_transaction:
  assumes "\<not> isManual (w_props w)" and "balance (w_state w) = Some b"
    and "availableToWithdraw b \<noteq> 0"
  shows
    "w_log (handleWithdraw E now w) =
       w_log w @
       [SendTransaction
          \<lparr>messages =
             [\<lparr>msg_address =
                 (if isTestnet (w_props w)
                  then formatContractAddress E (LOCKER_ADDRESSES_testnet E) True
                  else formatContractAddress E (LOCKER_ADDRESSES_mainnet E) False),
               msg_amount = toString (WITHDRAW_AMOUNT E),
               msg_payload =
                 toBoc_base64 E
                   (replicate 32 False @ [False, True, True, True, False, True, True, True])\<rparr>],
           validUntil = now + 5 * 60 * 1000\<rparr>]"
  using assms
  by (simp add: world_defs withdraw_transaction_def formattedLockerAddress_def
      lockerAddress_def withdraw_body_bits)

text \<open>
  The transaction sent at time 1000 on testnet and the one sent on mainnet, with the
  helpers of the example environment: they go to different addresses.
\<close>

theorem connected_transaction_witness:
  "\<not> isManual (w_props (loaded connected_props demo_balance)) \<and>
   \<not> isManual (w_props (loaded connected_mainnet_props demo_balance)) \<and>
   balance (w_state (loaded connected_props demo_balance)) = Some demo_balance \<and>
   balance (w_state (loaded connected_mainnet_props demo_balance)) = Some demo_balance \<and>
   availableToWithdraw demo_balance \<noteq> 0 \<and>
   w_log (handleWithdraw demo_env 1000 (loaded connected_props demo_balance)) =
     [GetWalletBalance True ''kQtest'' ''UQuser'',
      SendTransaction
        \<lparr>messages =
           [\<lparr>msg_address = ''t:kQtest'', msg_amount = ''1000000000'',
             msg_payload = ''0000000000000000000000000000000001110111''\<rparr>],
         validUntil = 301000\<rparr>] \<and>
   w_log (handleWithdraw demo_env 1000 (loaded connected_mainnet_props demo_balance)) =
     [GetWalletBalance False ''EQmain'' ''UQuser'',
      SendTransaction
        \<lparr>messages =
           [\<lparr>msg_address = ''m:EQmain'', msg_amount = ''1000000000'',
             msg_payload = ''0000000000000000000000000000000001110111''\<rparr>],
         validUntil = 301000\<rparr>]"
proof -
  have m: "\<not> isManual (w_props (loaded connected_props demo_balance))"
    by (simp add: loaded_eq connected_props_def)
  have m': "\<not> isManual (w_props (loaded connected_mainnet_props demo_balance))"
    by (simp add: loaded_eq connected_mainnet_props_def)
  have b: "balance (w_state (loaded connected_props demo_balance)) = Some demo_balance"
    by (simp add: loaded_eq)
  have b': "balance (w_state (loaded connected_mainnet_props demo_balance)) = Some demo_balance"
    by (simp add: loaded_eq)
  have a: "availableToWithdraw demo_balance \<noteq> 0"
    by (simp add: demo_balance_def)
  have l: "w_log (loaded connected_props demo_balance) =
      [GetWalletBalance True ''kQtest'' ''UQuser'']"
    by (simp add: loaded_eq connected_props_def lockerAddress_def demo_env_def)
  have l': "w_log (loaded connected_mainnet_props demo_balance) =
      [GetWalletBalance False ''EQmain'' ''UQuser'']"
    by (simp add: loaded_eq connected_mainnet_props_def lockerAddress_def demo_env_def)
  have t: "isTestnet (w_props (loaded connected_props demo_balance))"
    by (simp add: loaded_eq connected_props_def)
  have t': "\<not> isTestnet (w_props (loaded connected_mainnet_props demo_balance))"
    by (simp add: loaded_eq connected_mainnet_props_def)
  have n: "WITHDRAW_AMOUNT demo_env = 1000000000"
    by (simp add: demo_env_def)
  have f: "formatContractAddress demo_env (LOCKER_ADDRESSES_testnet demo_env) True = ''t:kQtest''"
    by (simp add: demo_env_def)
  have f': "formatContractAddress demo_env (LOCKER_ADDRESSES_mainnet demo_env) False = ''m:EQmain''"
    by (simp add: demo_env_def)
  have p: "toBoc_base64 demo_env
      (replicate 32 False @ [False, True, True, True, False, True, True, True]) =
      ''0000000000000000000000000000000001110111''"
    by (simp add: demo_env_def numeral_eq_Suc)
  have test: "w_log (handleWithdraw demo_env 1000 (loaded connected_props demo_balance)) =
     [GetWalletBalance True ''kQtest'' ''UQuser'',
      SendTransaction
        \<lparr>messages =
           [\<lparr>msg_address = ''t:kQtest'', msg_amount = ''1000000000'',
             msg_payload = ''0000000000000000000000000000000001110111''\<rparr>],
         validUntil = 301000\<rparr>]"
    using connected_transaction [OF m b a, of demo_env 1000]
    by (simp add: l t n f p toString_one_ton)
  have main: "w_log (handleWithdraw demo_env 1000 (loaded connected_mainnet_props demo_balance)) =
     [GetWalletBalance False ''EQmain'' ''UQuser'',
      SendTransaction
        \<lparr>messages =
           [\<lparr>msg_address = ''m:EQmain'', msg_amount = ''1000000000'',
             msg_payload = ''0000000000000000000000000000000001110111''\<rparr>],
         validUntil = 301000\<rparr>]"
    using connected_transaction [OF m' b' a, of demo_env 1000]
    by (simp add: l' t' n f' p toString_one_ton)
  show ?thesis
    using m m' b b' a test main by simp
qed

subsection \<open>C6: the destination follows the network flag\<close>

text \<open>
  Claim C6. With something to withdraw, the one call of \<^verbatim>\<open>handleWithdraw\<close> is, in manual
  mode, the QR encoding of the deep link built from the testnet locker address and the
  flag true when \<^verbatim>\<open>isTestnet\<close> is set, and from the mainnet locker address and the flag
  false otherwise; in connected mode it is the transaction whose only message goes to the
  testnet locker address formatted with the flag true when \<^verbatim>\<open>isTestnet\<close> is set, and to
  the mainnet locker address formatted with the flag false otherwise.
\<close>

theorem destination_by_network:
  assumes "balance (w_state w) = Some b" and "availableToWithdraw b \<noteq> 0"
  shows
    "w_log (handleWithdraw E now w) =
       w_log w @
       [if isManual (w_props w) then
          QRCode_toDataURL
            (if isTestnet (w_props w)
             then generateWithdrawDeepLink E (LOCKER_ADDRESSES_testnet E) True
             else generateWithdrawDeepLink E (LOCKER_ADDRESSES_mainnet E) False)
        else SendTransaction (withdraw_transaction E (isTestnet (w_props w)) now)] \<and>
     map msg_address (messages (withdraw_transaction E (isTestnet (w_props w)) now)) =
       [if isTestnet (w_props w)
        then formatContractAddress E (LOCKER_ADDRESSES_testnet E) True
        else formatContractAddress E (LOCKER_ADDRESSES_mainnet E) False]"
  using assms
  by (simp add: world_defs withdraw_transaction_def formattedLockerAddress_def
      lockerAddress_def)

text \<open>The manual path on mainnet, with the helpers of the example environment.\<close>

theorem destination_by_network_witness:
  "balance (w_state (loaded manual_props demo_balance)) = Some demo_balance \<and>
   availableToWithdraw demo_balance \<noteq> 0 \<and>
   w_log (handleWithdraw demo_env 1000 (loaded manual_props demo_balance)) =
     [GetWalletBalance False ''EQmain'' ''UQuser'',
      QRCode_toDataURL ''ton://transfer/m:EQmain'']"
proof -
  have b: "balance (w_state (loaded manual_props demo_balance)) = Some demo_balance"
    by (simp add: loaded_eq)
  have a: "availableToWithdraw demo_balance \<noteq> 0"
    by (simp add: demo_balance_def)
  have l: "w_log (loaded manual_props demo_balance) =
      [GetWalletBalance False ''EQmain'' ''UQuser'']"
    by (simp add: loaded_eq manual_props_def lockerAddress_def demo_env_def)
  have p: "w_props (loaded manual_props demo_balance) = manual_props"
    by (simp add: loaded_eq)
  have m: "isManual manual_props" and n: "\<not> isTestnet manual_props"
    by (simp_all add: manual_props_def)
  have d: "generateWithdrawDeepLink demo_env (LOCKER_ADDRESSES_mainnet demo_env) False =
      ''ton://transfer/m:EQmain''"
    by (simp add: demo_env_def)
  show ?thesis
    using destination_by_network [OF b a, of demo_env 1000] b a
    by (simp add: l p m n d)
qed

subsection \<open>C7: which flag a call of loadBalance sets\<close>

text \<open>
  Claim C7 at the first tick after the first successful fetch. The interval was armed by
  the effect of the first render, where \<^verbatim>\<open>balance\<close> was null, and the effect has not run
  since. Its callback therefore calls the \<^verbatim>\<open>loadBalance\<close> of the first render, which
  takes the branch \<^verbatim>\<open>setLoading(true)\<close>: the state then holds the loaded balance, with
  \<^verbatim>\<open>loading\<close> true and \<^verbatim>\<open>refreshing\<close> false, and the component renders the spinner of
  line 111 instead of the balance. The call does start exactly one fetch.
\<close>

theorem stale_tick_enters_full_loading:
  "balance (w_state (run E [FetchSettled (Resolved b), Tick] (mount E p))) = Some b \<and>
   loading (w_state (run E [FetchSettled (Resolved b), Tick] (mount E p))) \<and>
   \<not> refreshing (w_state (run E [FetchSettled (Resolved b), Tick] (mount E p))) \<and>
   fetch_count (run E [FetchSettled (Resolved b), Tick] (mount E p)) =
     fetch_count (run E [FetchSettled (Resolved b)] (mount E p)) + 1"
  by (simp add: world_defs mount_def initial_state_def)

subsection \<open>C8: validation that fails and validation that says no\<close>

text \<open>
  Claim C8, as the code has it. For a connected wallet address, a rejected validation call
  and a validation result of false both store a text in \<^verbatim>\<open>tonConnectError\<close> and both lead
  to the same view, headed ``wallet not found''; the two differ in the text shown. Neither
  callback calls the validation again. The view's only button disconnects the wallet
  session when the session reports to be connected and clears the error.
\<close>

theorem validation_failure_and_refusal:
  assumes "tonAddress s \<noteq> []"
  shows
    "AppContent_view t (snd (validation_settled Rejected (snd (validation_effect s)))) =
       WalletNotFoundView msg_not_confirmed \<and>
     AppContent_view t (snd (validation_settled (Resolved False) (snd (validation_effect s)))) =
       WalletNotFoundView msg_no_deposits \<and>
     fst (validation_settled Rejected (snd (validation_effect s))) =
       [ConsoleError log_not_confirmed] \<and>
     fst (validation_settled (Resolved False) (snd (validation_effect s))) = [] \<and>
     notFound_Back connected (snd (validation_settled r (snd (validation_effect s)))) =
       ((if connected then [TonConnectDisconnect] else []),
        (snd (validation_settled r (snd (validation_effect s))))\<lparr>tonConnectError := None\<rparr>)"
  using assms
  by (simp add: app_defs msg_not_confirmed_def msg_no_deposits_def)

text \<open>
  The claim as written sends a failed validation call somewhere else than the ``wallet not
  found'' view. For the connected address of \<open>demo_app\<close> it is that view.
\<close>

theorem validation_failure_is_not_found:
  "is_not_found_view
     (AppContent_view False (snd (validation_settled Rejected (snd (validation_effect demo_app))))) \<and>
   is_not_found_view
     (AppContent_view False
        (snd (validation_settled (Resolved False) (snd (validation_effect demo_app)))))"
  by (simp add: app_defs demo_app_def msg_not_confirmed_def msg_no_deposits_def)

text \<open>Both outcomes for the connected address of the example.\<close>

theorem validation_failure_and_refusal_witness:
  "tonAddress demo_app \<noteq> [] \<and>
   AppContent_view False (snd (validation_settled Rejected (snd (validation_effect demo_app)))) =
     WalletNotFoundView msg_not_confirmed \<and>
   AppContent_view False
       (snd (validation_settled (Resolved False) (snd (validation_effect demo_app)))) =
     WalletNotFoundView msg_no_deposits"
proof -
  have h: "tonAddress demo_app \<noteq> []"
    by (simp add: demo_app_def)
  show ?thesis
    using validation_failure_and_refusal [OF h, of False] h by simp
qed

subsection \<open>C9: disconnecting\<close>

text \<open>
  Claim C9. In connected mode with a session that reports to be connected,
  \<^verbatim>\<open>handleDisconnect\<close> first calls \<^verbatim>\<open>tonConnectUI.disconnect()\<close> and, once that has
  resolved, the parent's callback; should the disconnect reject, the parent is not called
  at all, so the parent is never called before the session is closed. In manual mode it
  makes no wallet call: the only call is the parent's callback, which clears
  \<^verbatim>\<open>manualAddress\<close>, \<^verbatim>\<open>isManual\<close> and \<^verbatim>\<open>tonConnectError\<close>. The same holds in connected mode
  when the session reports not to be connected.
\<close>

theorem disconnect_order:
  "handleDisconnect False True (Resolved ()) s =
     ([TonConnectDisconnect, OnDisconnect], AppContent_handleDisconnect s) \<and>
   handleDisconnect False True Rejected s = ([TonConnectDisconnect], s) \<and>
   handleDisconnect True connected r s =
     ([OnDisconnect],
      s\<lparr>manualAddress := None, isManual_state := False, tonConnectError := None\<rparr>) \<and>
   filter is_sdk_call (fst (handleDisconnect True connected r s)) = [] \<and>
   handleDisconnect False False r s = ([OnDisconnect], AppContent_handleDisconnect s)"
  by (simp add: app_defs)

subsection \<open>C10: the error is cleared before the fetch\<close>



end
